theory Spec2Isabelle
  imports Complex_Main "HOL-Library.Word" "HOL-Library.AList"
begin

unbundle bit_operations_syntax

section \<open>SHA-256 (hashlib.sha256) on byte strings\<close>

text \<open>
  \<open>get_cache_key\<close> calls \<open>hashlib.sha256(content.encode()).hexdigest()\<close>. The digest is
  written out here after FIPS 180-4 so that the key is a concrete function. A Python
  \<open>str\<close> is a \<open>string\<close> whose characters are the code points below 256; \<open>encode\<close> is
  UTF-8 on them: one byte below 128, two bytes from 128 on.
\<close>

definition rotr :: "nat \<Rightarrow> 32 word \<Rightarrow> 32 word" where
  "rotr n x = (drop_bit n x) OR (push_bit (32 - n) x)"

definition bsig0 :: "32 word \<Rightarrow> 32 word" where
  "bsig0 x = rotr 2 x XOR rotr 13 x XOR rotr 22 x"

definition bsig1 :: "32 word \<Rightarrow> 32 word" where
  "bsig1 x = rotr 6 x XOR rotr 11 x XOR rotr 25 x"

definition ssig0 :: "32 word \<Rightarrow> 32 word" where
  "ssig0 x = rotr 7 x XOR rotr 18 x XOR drop_bit 3 x"

definition ssig1 :: "32 word \<Rightarrow> 32 word" where
  "ssig1 x = rotr 17 x XOR rotr 19 x XOR drop_bit 10 x"

definition ch :: "32 word \<Rightarrow> 32 word \<Rightarrow> 32 word \<Rightarrow> 32 word" where
  "ch x y z = (x AND y) XOR (NOT x AND z)"

definition maj :: "32 word \<Rightarrow> 32 word \<Rightarrow> 32 word \<Rightarrow> 32 word" where
  "maj x y z = (x AND y) XOR (x AND z) XOR (y AND z)"

text \<open>The round constants and the initial hash value, as decimal numerals.\<close>

definition sha256_k :: "32 word list" where
  "sha256_k =
  [1116352408, 1899447441, 3049323471, 3921009573, 961987163, 1508970993,
   2453635748, 2870763221, 3624381080, 310598401, 607225278, 1426881987,
   1925078388, 2162078206, 2614888103, 3248222580, 3835390401, 4022224774,
   264347078, 604807628, 770255983, 1249150122, 1555081692, 1996064986,
   2554220882, 2821834349, 2952996808, 3210313671, 3336571891, 3584528711,
   113926993, 338241895, 666307205, 773529912, 1294757372, 1396182291,
   1695183700, 1986661051, 2177026350, 2456956037, 2730485921, 2820302411,
   3259730800, 3345764771, 3516065817, 3600352804, 4094571909, 275423344,
   430227734, 506948616, 659060556, 883997877, 958139571, 1322822218,
   1537002063, 1747873779, 1955562222, 2024104815, 2227730452, 2361852424,
   2428436474, 2756734187, 3204031479, 3329325298]"

definition sha256_h0 :: "32 word list" where
  "sha256_h0 =
  [1779033703, 3144134277, 1013904242, 2773480762,
   1359893119, 2600822924, 528734635, 1541459225]"

text \<open>Padding: the byte 0x80, zero bytes up to 56 modulo 64, the bit length on 8 bytes.\<close>

definition be_bytes :: "64 word \<Rightarrow> 8 word list" where
  "be_bytes v = map (\<lambda>i. ucast (drop_bit (8 * i) v)) (rev [0..<8])"

definition sha256_pad :: "8 word list \<Rightarrow> 8 word list" where
  "sha256_pad m =
     m @ [0x80] @ replicate ((119 - length m mod 64) mod 64) 0
       @ be_bytes (of_nat (8 * length m))"

fun be_words :: "8 word list \<Rightarrow> 32 word list" where
  "be_words (a # b # c # d # r) =
     (push_bit 24 (ucast a) OR push_bit 16 (ucast b) OR push_bit 8 (ucast c) OR ucast d)
       # be_words r"
| "be_words _ = []"

fun schedule :: "nat \<Rightarrow> 32 word list \<Rightarrow> 32 word list" where
  "schedule 0 w = w"
| "schedule (Suc n) w =
     schedule n (w @ [ssig1 (w ! (length w - 2)) + w ! (length w - 7)
                      + ssig0 (w ! (length w - 15)) + w ! (length w - 16)])"

fun sha256_round :: "32 word list \<Rightarrow> 32 word \<times> 32 word \<Rightarrow> 32 word list" where
  "sha256_round [a, b, c, d, e, f, g, h] (k, w) =
     (let t1 = h + bsig1 e + ch e f g + k + w;
          t2 = bsig0 a + maj a b c
      in [t1 + t2, a, b, c, d + t1, e, f, g])"
| "sha256_round s _ = s"

definition sha256_block :: "32 word list \<Rightarrow> 32 word list \<Rightarrow> 32 word list" where
  "sha256_block h ws =
     map2 (+) h (foldl sha256_round h (zip sha256_k (schedule 48 ws)))"

fun sha256_blocks :: "nat \<Rightarrow> 32 word list \<Rightarrow> 32 word list \<Rightarrow> 32 word list" where
  "sha256_blocks 0 h ws = h"
| "sha256_blocks (Suc n) h ws = sha256_blocks n (sha256_block h (take 16 ws)) (drop 16 ws)"

definition sha256 :: "8 word list \<Rightarrow> 32 word list" where
  "sha256 m = (let p = sha256_pad m in sha256_blocks (length p div 64) sha256_h0 (be_words p))"

definition hex_digit :: "32 word \<Rightarrow> char" where
  "hex_digit n = ''0123456789abcdef'' ! unat (n AND 15)"

definition hex_word :: "32 word \<Rightarrow> string" where
  "hex_word w = map (\<lambda>i. hex_digit (drop_bit (4 * i) w)) (rev [0..<8])"

definition utf8 :: "char \<Rightarrow> 8 word list" where
  "utf8 c =
     (let x = (of_char c :: 8 word)
      in if x < 128 then [x] else [192 OR drop_bit 6 x, 128 OR (x AND 63)])"

definition encode :: "string \<Rightarrow> 8 word list" where
  "encode s = concat (map utf8 s)"

definition sha256_hexdigest :: "string \<Rightarrow> string" where
  "sha256_hexdigest s = concat (map hex_word (sha256 (encode s)))"

section \<open>ModelCache: key derivation\<close>

text \<open>
  \<open>content = f"{model}:{diff[:500]}"\<close> and
  \<open>hashlib.sha256(content.encode()).hexdigest()[:16]\<close>.
\<close>

definition cache_key_content :: "string \<Rightarrow> string \<Rightarrow> string" where
  "cache_key_content diff model = model @ '':'' @ take 500 diff"

definition get_cache_key :: "string \<Rightarrow> string \<Rightarrow> string" where
  "get_cache_key diff model = take 16 (sha256_hexdigest (cache_key_content diff model))"


section \<open>Python values, exceptions and files\<close>

text \<open>
  The values \<open>json.loads\<close> returns and \<open>json.dumps\<close> accepts. \<open>JNull\<close> is Python's
  \<open>None\<close>, numbers are reals, a dict is an association list in insertion order.
\<close>

datatype json = JNull | JBool bool | JNum real | JStr string
  | JArr "json list" | JObj "(string \<times> json) list"

datatype exn = Exception json | JSONDecodeError | UnicodeDecodeError | AttributeError
  | TypeError | KeyError string | ImportError | ConnectionError | OSError | ValueError

text \<open>
  A file read through \<open>json.loads(f.read_text())\<close> is kept as what that call does on it:
  it raises, or it returns a value. \<open>write_text(json.dumps(v))\<close> stores \<open>Parsed v\<close>.
\<close>

datatype json_file = Unparsable | Parsed json

fun json_loads :: "json_file \<Rightarrow> exn + json" where
  "json_loads Unparsable = Inl JSONDecodeError"
| "json_loads (Parsed v) = Inr v"

text \<open>A blob of \<open>outputs/\<close>: its text and the modification time the file system gave it.\<close>

record blob =
  content :: string
  st_mtime :: real

text \<open>
  The cache directory and the object's field \<open>self.metadata\<close>. Directories are
  association lists from file name to file.
\<close>

record model_cache =
  outputs_dir :: "(string \<times> blob) list"
  models_dir :: "(string \<times> json_file) list"
  metadata_file :: "json_file option"
  metadata :: json

section \<open>ModelCache\<close>

definition load_metadata :: "json_file option \<Rightarrow> json" where
  "load_metadata f =
     (case f of
        Some c \<Rightarrow> (case json_loads c of Inr v \<Rightarrow> v | Inl e \<Rightarrow> JObj [])
      | None \<Rightarrow> JObj [])"

text \<open>\<open>__init__\<close> on a cache directory: the directories exist, the metadata is loaded.\<close>

definition init_cache ::
  "(string \<times> blob) list \<Rightarrow> (string \<times> json_file) list \<Rightarrow> json_file option \<Rightarrow> model_cache" where
  "init_cache outs mods mf =
     \<lparr>outputs_dir = outs, models_dir = mods, metadata_file = mf, metadata = load_metadata mf\<rparr>"

definition save_metadata :: "model_cache \<Rightarrow> model_cache" where
  "save_metadata st = st\<lparr>metadata_file := Some (Parsed (metadata st))\<rparr>"

definition cache_file :: "string \<Rightarrow> string \<Rightarrow> string" where
  "cache_file diff model = get_cache_key diff model @ ''.txt''"

text \<open>
  \<open>read_text()\<close> opens the file in text mode: every \<open>\r\n\<close> and every other \<open>\r\<close> is read
  as \<open>\n\<close>. (\<open>write_text\<close> on a POSIX system writes the text as it is.)
\<close>

fun universal_newlines :: "string \<Rightarrow> string" where
  "universal_newlines (c # d # r) =
     (if c = CHR 0x0D \<and> d = CHR 0x0A then CHR 0x0A # universal_newlines r
      else if c = CHR 0x0D then CHR 0x0A # universal_newlines (d # r)
      else c # universal_newlines (d # r))"
| "universal_newlines [c] = (if c = CHR 0x0D then [CHR 0x0A] else [c])"
| "universal_newlines [] = []"

definition read_text :: "blob \<Rightarrow> string" where
  "read_text b = universal_newlines (content b)"

text \<open>
  \<open>now\<close> is the value of \<open>time.time()\<close> at the call. The name of the blob has 20
  characters, so \<open>exists()\<close> does not fail on it.
\<close>

definition get_cached_message :: "model_cache \<Rightarrow> real \<Rightarrow> string \<Rightarrow> string \<Rightarrow> string option" where
  "get_cached_message st now diff model =
     (case map_of (outputs_dir st) (cache_file diff model) of
        Some b \<Rightarrow> if now - st_mtime b < 86400 then Some (read_text b) else None
      | None \<Rightarrow> None)"

text \<open>
  \<open>self.metadata[key] = info\<close>: item assignment on a dict; any other value that
  \<open>_load_metadata\<close> may have returned raises.
\<close>

fun setitem :: "json \<Rightarrow> string \<Rightarrow> json \<Rightarrow> exn + json" where
  "setitem (JObj kvs) k v = Inr (JObj (AList.update k v kvs))"
| "setitem _ k v = Inl TypeError"

text \<open>
  \<open>save_message\<close>: \<open>mtime\<close> is the time the file system stamps on the written blob,
  \<open>now\<close> the later \<open>time.time()\<close> of the metadata record. The result is the exception
  that escapes, if any, and the state reached.
\<close>

definition save_message ::
  "model_cache \<Rightarrow> real \<Rightarrow> real \<Rightarrow> string \<Rightarrow> string \<Rightarrow> string \<Rightarrow> exn option \<times> model_cache" where
  "save_message st mtime now diff model message =
     (let st1 = st\<lparr>outputs_dir :=
                 AList.update (cache_file diff model) \<lparr>content = message, st_mtime = mtime\<rparr>
                   (outputs_dir st)\<rparr>;
          info = JObj [(''model'', JStr model), (''timestamp'', JNum now),
                       (''diff_size'', JNum (real (length diff)))]
      in case setitem (metadata st1) (get_cache_key diff model) info of
           Inl e \<Rightarrow> (Some e, st1)
         | Inr m \<Rightarrow> (None, save_metadata (st1\<lparr>metadata := m\<rparr>)))"

text \<open>\<open>model_name.replace("/", "--")\<close> and the info file of a model.\<close>

definition model_key :: "string \<Rightarrow> string" where
  "model_key model_name = concat (map (\<lambda>c. if c = CHR ''/'' then ''--'' else [c]) model_name)"

definition info_file :: "string \<Rightarrow> string" where
  "info_file model_name = model_key model_name @ ''.json''"

text \<open>
  \<open>info_file.exists()\<close> stands before the \<open>try\<close>: on a file name of more than 255 bytes
  the \<open>stat\<close> behind it fails with \<open>ENAMETOOLONG\<close>, which \<open>exists()\<close> does not swallow, and
  \<open>OSError\<close> leaves \<open>get_model_info\<close>.
\<close>

definition name_max :: nat where
  "name_max = 255"

definition name_too_long :: "string \<Rightarrow> bool" where
  "name_too_long name = (name_max < length (encode name))"

text \<open>\<open>get_model_info\<close> returns a Python value; \<open>JNull\<close> is its \<open>None\<close>.\<close>

definition get_model_info :: "model_cache \<Rightarrow> string \<Rightarrow> exn + json" where
  "get_model_info st model_name =
     (if name_too_long (info_file model_name) then Inl OSError
      else
        (case map_of (models_dir st) (info_file model_name) of
           Some c \<Rightarrow> (case json_loads c of Inr v \<Rightarrow> Inr v | Inl e \<Rightarrow> Inr JNull)
         | None \<Rightarrow> Inr JNull))"

text \<open>
  \<open>save_model_info\<close> is called by \<open>_get_llm_client\<close> alone, after \<open>get_model_info\<close> has
  returned for the same name.
\<close>

definition save_model_info :: "model_cache \<Rightarrow> string \<Rightarrow> json \<Rightarrow> model_cache" where
  "save_model_info st model_name info =
     st\<lparr>models_dir := AList.update (info_file model_name) (Parsed info) (models_dir st)\<rparr>"













section \<open>CachedLLMClient\<close>

text \<open>
  An engine is its \<open>generate_commit_message\<close>. The three client classes are outside
  this module; each is given by what its constructor does on a configuration.
\<close>

type_synonym engine = "string \<Rightarrow> exn + string"

record engines =
  fast_commit_client :: "(string \<times> json) list \<Rightarrow> exn + engine"
  onnx_llm_client :: "(string \<times> json) list \<Rightarrow> exn + engine"
  llm_client_class :: "(string \<times> json) list \<Rightarrow> exn + engine"

record cached_llm_client =
  config :: "(string \<times> json) list"
  cache :: model_cache
  model_name :: string
  llm_client :: "engine option"

fun truthy :: "json \<Rightarrow> bool" where
  "truthy JNull = False"
| "truthy (JBool b) = b"
| "truthy (JNum x) = (x \<noteq> 0)"
| "truthy (JStr s) = (s \<noteq> [])"
| "truthy (JArr xs) = (xs \<noteq> [])"
| "truthy (JObj kvs) = (kvs \<noteq> [])"

definition config_flag :: "(string \<times> json) list \<Rightarrow> string \<Rightarrow> bool" where
  "config_flag cfg k = (case map_of cfg k of Some v \<Rightarrow> truthy v | None \<Rightarrow> False)"

definition new_llm_client :: "engines \<Rightarrow> (string \<times> json) list \<Rightarrow> exn + engine" where
  "new_llm_client eng cfg =
     (if config_flag cfg ''use_fast'' then fast_commit_client eng cfg
      else if config_flag cfg ''use_onnx'' then
        (case onnx_llm_client eng cfg of
           Inl e \<Rightarrow> if e = ImportError then llm_client_class eng cfg else Inl e
         | Inr c \<Rightarrow> Inr c)
      else llm_client_class eng cfg)"

text \<open>
  \<open>_get_llm_client\<close>; \<open>t_loaded\<close> is the \<open>time.time()\<close> stored as \<open>loaded_at\<close>. The value
  of \<open>get_model_info\<close> only decides a printed line, but its exception leaves the method.
\<close>

definition get_llm_client ::
  "engines \<Rightarrow> cached_llm_client \<Rightarrow> real \<Rightarrow> exn + engine \<times> cached_llm_client" where
  "get_llm_client eng cl t_loaded =
     (case llm_client cl of
        Some c \<Rightarrow> Inr (c, cl)
      | None \<Rightarrow>
          (case get_model_info (cache cl) (model_name cl) of
             Inl e \<Rightarrow> Inl e
           | Inr model_info \<Rightarrow>
               (case new_llm_client eng (config cl) of
                  Inl e \<Rightarrow> Inl e
                | Inr c \<Rightarrow>
                    Inr (c, cl\<lparr>llm_client := Some c,
                               cache := save_model_info (cache cl) (model_name cl)
                                 (JObj [(''loaded_at'', JNum t_loaded),
                                        (''config'', JObj (config cl))])\<rparr>))))"

text \<open>
  \<open>generate_commit_message\<close>: \<open>if cached:\<close> is false for \<open>None\<close> and for the empty
  string. The result is what is returned or raised, and the client reached.
\<close>

definition generate_commit_message ::
  "engines \<Rightarrow> cached_llm_client \<Rightarrow> real \<Rightarrow> real \<Rightarrow> real \<Rightarrow> real \<Rightarrow> string
     \<Rightarrow> (exn + string) \<times> cached_llm_client" where
  "generate_commit_message eng cl now t_loaded mtime t_meta diff =
     (let cached = get_cached_message (cache cl) now diff (model_name cl)
      in if cached \<noteq> None \<and> cached \<noteq> Some [] then (Inr (the cached), cl)
         else
           (case get_llm_client eng cl t_loaded of
              Inl e \<Rightarrow> (Inl e, cl)
            | Inr (client, cl1) \<Rightarrow>
                (case client diff of
                   Inl e \<Rightarrow> (Inl e, cl1)
                 | Inr message \<Rightarrow>
                     (case save_message (cache cl1) mtime t_meta diff (model_name cl1) message of
                        (Some e, c) \<Rightarrow> (Inl e, cl1\<lparr>cache := c\<rparr>)
                      | (None, c) \<Rightarrow> (Inr message, cl1\<lparr>cache := c\<rparr>)))))"

section \<open>The socket protocol\<close>

text \<open>
  What travels on the socket: \<open>Doc v\<close> is the text \<open>json.dumps(v)\<close> (it holds no line
  feed), \<open>NL\<close> the byte \<open>\n\<close>, \<open>Junk\<close> a run of bytes without line feed that is not a
  JSON text. \<open>recv\<close> returns a run of these (empty when the peer has closed) or raises,
  or it does not return: a peer that keeps the connection open and sends nothing.
\<close>

datatype wire = Doc json | NL | Junk

datatype recv = Recv "wire list" | RecvError


definition has_newline :: "wire list \<Rightarrow> bool" where
  "has_newline data = (NL \<in> set data)"

text \<open>
  The two receive loops: \<open>recv\<close> until it returns nothing or \<open>done data\<close> holds. The
  events are what the calls of \<open>recv\<close> give, one after the other; \<open>Recv []\<close> is the
  \<open>b""\<close> of a peer that has closed. When the list is used up the peer is still there and
  silent, \<open>recv\<close> does not return and neither does the loop: the result is \<open>None\<close>.
\<close>

fun recv_until ::
  "(wire list \<Rightarrow> bool) \<Rightarrow> recv list \<Rightarrow> wire list \<Rightarrow> (exn + wire list) option" where
  "recv_until done [] data = None"
| "recv_until done (RecvError # rs) data = Some (Inl ConnectionError)"
| "recv_until done (Recv chunk # rs) data =
     (if chunk = [] then Some (Inr data)
      else if done (data @ chunk) then Some (Inr (data @ chunk))
      else recv_until done rs (data @ chunk))"

text \<open>\<open>json.loads(data.decode().strip())\<close>: the line feeds at both ends go, one document must remain.\<close>

definition strip :: "wire list \<Rightarrow> wire list" where
  "strip data = rev (dropWhile (\<lambda>w. w = NL) (rev (dropWhile (\<lambda>w. w = NL) data)))"

fun loads :: "wire list \<Rightarrow> exn + json" where
  "loads [Doc v] = Inr v"
| "loads _ = Inl JSONDecodeError"



section \<open>ModelServer\<close>







text \<open>
  The daemon: the flag \<open>running\<close>, what it sent on each connection so far, and the
  lines \<open>Server error: ...\<close> it printed.
\<close>

record model_server =
  running :: bool
  replies :: "wire list list"
  server_errors :: "string list"

definition shutdown :: "model_server \<Rightarrow> model_server" where
  "shutdown srv = srv\<lparr>running := False\<rparr>"



section \<open>ModelClient\<close>

text \<open>
  The socket path as the client finds it: whether the path exists, whether \<open>connect\<close>
  succeeds, and what the peer sends back on the request it received.
\<close>

record endpoint =
  path_exists :: bool
  accepting :: bool
  respond :: "wire list \<Rightarrow> recv list"

datatype sock_op = Connect | Send "wire list" | Close

definition is_server_running :: "endpoint \<Rightarrow> bool" where
  "is_server_running ep = path_exists ep"

definition not_running_message :: string where
  "not_running_message = ''Model server not running. Start with: llmcommit-server''"

text \<open>
  \<open>if "error" in response: raise Exception(response["error"])\<close> and
  \<open>return response["message"]\<close>. On a list or a string either \<open>response["error"]\<close> or
  \<open>response["message"]\<close> raises \<open>TypeError\<close>, on the other values \<open>in\<close> does.
\<close>

fun read_response :: "json \<Rightarrow> exn + json" where
  "read_response (JObj kvs) =
     (case map_of kvs ''error'' of
        Some e \<Rightarrow> Inl (Exception e)
      | None \<Rightarrow> (case map_of kvs ''message'' of Some m \<Rightarrow> Inr m | None \<Rightarrow> Inl (KeyError ''message'')))"
| "read_response _ = Inl TypeError"

text \<open>\<open>json.dumps({"diff": diff}).encode() + b"\n\n"\<close>.\<close>

definition request_of :: "string \<Rightarrow> wire list" where
  "request_of diff = [Doc (JObj [(''diff'', JStr diff)]), NL, NL]"

text \<open>
  \<open>ModelClient.generate_commit_message\<close>: what it returns or raises, and the socket
  operations it made; \<open>None\<close> when it does not return, the peer being silent.
\<close>

definition client_generate :: "endpoint \<Rightarrow> string \<Rightarrow> ((exn + json) \<times> sock_op list) option" where
  "client_generate ep diff =
     (if \<not> is_server_running ep then Some (Inl (Exception (JStr not_running_message)), [])
      else if \<not> accepting ep then Some (Inl ConnectionError, [Connect])
      else
        (let request = request_of diff;
             ops = [Connect, Send request, Close]
         in case recv_until has_newline (respond ep request) [] of
              None \<Rightarrow> None
            | Some (Inl e) \<Rightarrow> Some (Inl e, ops)
            | Some (Inr data) \<Rightarrow>
                (case loads (strip data) of
                   Inl e \<Rightarrow> Some (Inl e, ops)
                 | Inr response \<Rightarrow> Some (read_response response, ops))))"


section \<open>The daemon supervisor\<close>

text \<open>
  The PID file is kept as what \<open>int(pid_file.read_text())\<close> does on it. \<open>procs\<close> are the
  process ids on which \<open>os.kill(pid, 0)\<close> returns; \<open>spawned\<close> the daemons forked so far,
  \<open>signalled\<close> the ids that were sent \<open>SIGTERM\<close>.
\<close>

datatype pid_text = PidText int | NotAnInt

datatype report = AlreadyRunning | Started int | NotRunning | Stopped | ErrorStopping exn

record supervisor =
  pid_file :: "pid_text option"
  procs :: "int list"
  spawned :: "int list"
  signalled :: "int list"
  socket_file :: bool
  printed :: "report list"

fun int_of_text :: "pid_text \<Rightarrow> exn + int" where
  "int_of_text (PidText n) = Inr n"
| "int_of_text NotAnInt = Inl ValueError"

definition kill :: "supervisor \<Rightarrow> int \<Rightarrow> exn + unit" where
  "kill sv pid = (if pid \<in> set (procs sv) then Inr () else Inl OSError)"

text \<open>
  The fork and the parent's branch; \<open>child\<close> is the process id \<open>os.fork()\<close> returns. What
  the child does next (\<open>ModelServer().start()\<close>) is the daemon above.
\<close>

definition fork_daemon :: "supervisor \<Rightarrow> int \<Rightarrow> supervisor" where
  "fork_daemon sv child =
     sv\<lparr>procs := child # procs sv, spawned := spawned sv @ [child],
        pid_file := Some (PidText child), printed := printed sv @ [Started child]\<rparr>"

definition start_server_daemon :: "supervisor \<Rightarrow> int \<Rightarrow> supervisor" where
  "start_server_daemon sv child =
     (case pid_file sv of
        Some f \<Rightarrow>
          (case int_of_text f of
             Inl e \<Rightarrow> fork_daemon (sv\<lparr>pid_file := None\<rparr>) child
           | Inr pid \<Rightarrow>
               (case kill sv pid of
                  Inr u \<Rightarrow> sv\<lparr>printed := printed sv @ [AlreadyRunning]\<rparr>
                | Inl e \<Rightarrow> fork_daemon (sv\<lparr>pid_file := None\<rparr>) child))
      | None \<Rightarrow> fork_daemon sv child)"

definition stop_server_daemon :: "supervisor \<Rightarrow> supervisor" where
  "stop_server_daemon sv =
     (case pid_file sv of
        None \<Rightarrow> sv\<lparr>printed := printed sv @ [NotRunning]\<rparr>
      | Some f \<Rightarrow>
          (case int_of_text f of
             Inl e \<Rightarrow> sv\<lparr>printed := printed sv @ [ErrorStopping e]\<rparr>
           | Inr pid \<Rightarrow>
               (case kill sv pid of
                  Inl e \<Rightarrow> sv\<lparr>printed := printed sv @ [ErrorStopping e]\<rparr>
                | Inr u \<Rightarrow>
                    sv\<lparr>signalled := signalled sv @ [pid], pid_file := None,
                       socket_file := False, printed := printed sv @ [Stopped]\<rparr>)))"

section \<open>Sample states\<close>


definition fast_only :: engines where
  "fast_only =
     \<lparr>fast_commit_client = (\<lambda>cfg. Inr (\<lambda>d. Inr ''Update files'')),
      onnx_llm_client = (\<lambda>cfg. Inl ImportError),
      llm_client_class = (\<lambda>cfg. Inl OSError)\<rparr>"

definition empty_hit_client :: cached_llm_client where
  "empty_hit_client =
     \<lparr>config = [(''model'', JStr ''gpt2''), (''use_fast'', JBool True)],
      cache = \<lparr>outputs_dir = [(cache_file ''x'' ''gpt2'', \<lparr>content = [], st_mtime = 0\<rparr>)],
               models_dir = [], metadata_file = None, metadata = JObj []\<rparr>,
      model_name = ''gpt2'',
      llm_client = None\<rparr>"



definition failing_endpoint :: endpoint where
  "failing_endpoint =
     \<lparr>path_exists = True, accepting = True,
      respond = (\<lambda>request. [Recv [Doc (JObj [(''error'', JStr ''out of memory'')]), NL]])\<rparr>"

definition no_daemon :: supervisor where
  "no_daemon = \<lparr>pid_file = None, procs = [1], spawned = [], signalled = [],
                socket_file = False, printed = []\<rparr>"

section \<open>Results: key derivation and lookup after store\<close>

lemma map_of_update_same: "map_of (AList.update k v al) k = Some v"
  by (simp add: update_conv')







text \<open>
  C3. The key is the first 16 characters of the SHA-256 hex digest of
  \<open>model + ":" + diff[:500]\<close>; two diffs with the same first 500 characters have the same
  key for one model, and every lookup returns the same for both.
\<close>

theorem cache_key_prefix:
  assumes "take 500 diff1 = take 500 diff2"
  shows "get_cache_key diff1 model = take 16 (sha256_hexdigest (model @ '':'' @ take 500 diff1))
       \<and> get_cache_key diff1 model = get_cache_key diff2 model
       \<and> get_cached_message st now diff1 model = get_cached_message st now diff2 model"
  using assms by (simp add: get_cache_key_def cache_key_content_def get_cached_message_def cache_file_def)

theorem cache_key_prefix_witness:
  "take 500 (replicate 500 CHR ''a'' @ ''x'') = take 500 (replicate 500 CHR ''a'' @ ''yz'')
   \<and> get_cache_key (replicate 500 CHR ''a'' @ ''x'') ''gpt2''
       = get_cache_key (replicate 500 CHR ''a'' @ ''yz'') ''gpt2''
   \<and> get_cached_message (init_cache [] [] None) 1 (replicate 500 CHR ''a'' @ ''x'') ''gpt2''
       = get_cached_message (init_cache [] [] None) 1 (replicate 500 CHR ''a'' @ ''yz'') ''gpt2''"
proof -
  have h: "take 500 (replicate 500 CHR ''a'' @ ''x'') = take 500 (replicate 500 CHR ''a'' @ ''yz'')"
    by simp
  from cache_key_prefix [OF h, of "''gpt2''" "init_cache [] [] None" 1] h
  show ?thesis by blast
qed

text \<open>
  Two model identifiers with one key for the diff \<open>x\<close>: both digests start with
  \<open>3c3c8d5a0ca1df82\<close>.
\<close>

lemma key_of_model_a: "get_cache_key ''x'' ''ma3bb31c2659cbb8d'' = ''3c3c8d5a0ca1df82''"
  by code_simp

lemma key_of_model_b: "get_cache_key ''x'' ''m38bb2286078c0ad9'' = ''3c3c8d5a0ca1df82''"
  by code_simp

text \<open>
  C4, as stated, fails: the models \<open>ma3bb31c2659cbb8d\<close> and \<open>m38bb2286078c0ad9\<close> are
  different and have the same key for the diff \<open>x\<close>.
\<close>

theorem distinct_models_same_key_counterexample:
  "''ma3bb31c2659cbb8d'' \<noteq> ''m38bb2286078c0ad9''
   \<and> get_cache_key ''x'' ''ma3bb31c2659cbb8d'' = get_cache_key ''x'' ''m38bb2286078c0ad9''"
  by (simp add: key_of_model_a key_of_model_b)

text \<open>
  C4, amended. For two different models and one diff the hashed strings
  \<open>model + ":" + diff[:500]\<close> are different, and the two keys are equal exactly when the
  SHA-256 hex digests of these strings agree on their first 16 characters.
\<close>

theorem distinct_models_distinct_content:
  assumes "model1 \<noteq> model2"
  shows "cache_key_content diff model1 \<noteq> cache_key_content diff model2
       \<and> (get_cache_key diff model1 = get_cache_key diff model2) =
           (take 16 (sha256_hexdigest (cache_key_content diff model1))
              = take 16 (sha256_hexdigest (cache_key_content diff model2)))"
  using assms by (simp add: cache_key_content_def get_cache_key_def)

theorem distinct_models_distinct_content_witness:
  "''gpt2'' \<noteq> ''distilgpt2''
   \<and> cache_key_content ''x'' ''gpt2'' \<noteq> cache_key_content ''x'' ''distilgpt2''"
proof -
  have h: "''gpt2'' \<noteq> ''distilgpt2''" by simp
  from distinct_models_distinct_content [OF h, of "''x''"] h show ?thesis by blast
qed

section \<open>Results: clearing old entries\<close>
















section \<open>Results: corrupt files\<close>






section \<open>Results: an empty cached message\<close>

lemma get_llm_client_fields:
  assumes "get_llm_client eng cl t = Inr (client, cl1)"
  shows "model_name cl1 = model_name cl \<and> outputs_dir (cache cl1) = outputs_dir (cache cl)
       \<and> metadata (cache cl1) = metadata (cache cl)"
  using assms by (auto simp: get_llm_client_def save_model_info_def split: option.splits sum.splits)

text \<open>
  C10. When the lookup returns the empty string, \<open>generate_commit_message\<close> does not
  return it: it obtains the engine, calls it on the diff, writes the new message over the
  blob, and returns the new message (or raises the \<open>TypeError\<close> of \<open>save_message\<close> when the
  loaded metadata is not a dict).
\<close>

theorem empty_cached_regenerates:
  assumes "get_cached_message (cache cl) now diff (model_name cl) = Some []"
      and "get_llm_client eng cl t_loaded = Inr (client, cl1)"
      and "client diff = Inr message"
  shows "map_of (outputs_dir (cache (snd (generate_commit_message eng cl now t_loaded mtime t_meta diff))))
             (cache_file diff (model_name cl)) = Some \<lparr>content = message, st_mtime = mtime\<rparr>
       \<and> fst (generate_commit_message eng cl now t_loaded mtime t_meta diff)
           = (case metadata (cache cl) of JObj kvs \<Rightarrow> Inr message | _ \<Rightarrow> Inl TypeError)"
proof -
  note f = get_llm_client_fields [OF assms(2)]
  have g: "generate_commit_message eng cl now t_loaded mtime t_meta diff =
     (case save_message (cache cl1) mtime t_meta diff (model_name cl) message of
        (Some e, c) \<Rightarrow> (Inl e, cl1\<lparr>cache := c\<rparr>)
      | (None, c) \<Rightarrow> (Inr message, cl1\<lparr>cache := c\<rparr>))"
    by (simp add: generate_commit_message_def assms f)
  show ?thesis
    by (cases "metadata (cache cl)")
       (simp_all add: g save_message_def save_metadata_def Let_def f map_of_update_same)
qed

theorem empty_cached_regenerates_witness:
  "get_cached_message (cache empty_hit_client) 10 ''x'' (model_name empty_hit_client) = Some []
   \<and> fst (generate_commit_message fast_only empty_hit_client 10 11 12 13 ''x'') = Inr ''Update files''
   \<and> map_of (outputs_dir (cache (snd (generate_commit_message fast_only empty_hit_client 10 11 12 13 ''x''))))
        (cache_file ''x'' ''gpt2'') = Some \<lparr>content = ''Update files'', st_mtime = 12\<rparr>"
proof -
  have h1: "get_cached_message (cache empty_hit_client) 10 ''x'' (model_name empty_hit_client) = Some []"
    by (simp add: get_cached_message_def read_text_def empty_hit_client_def)
  obtain cl1 where h2: "get_llm_client fast_only empty_hit_client 11 = Inr (\<lambda>d. Inr ''Update files'', cl1)"
    by (simp add: get_llm_client_def new_llm_client_def config_flag_def fast_only_def
        empty_hit_client_def get_model_info_def name_too_long_def name_max_def info_file_def
        model_key_def encode_def utf8_def)
  have h3: "(\<lambda>d::string. (Inr ''Update files'' :: exn + string)) ''x'' = Inr ''Update files''" by simp
  have m: "model_name empty_hit_client = ''gpt2''" "metadata (cache empty_hit_client) = JObj []"
    by (simp_all add: empty_hit_client_def)
  from empty_cached_regenerates [OF h1 h2 h3, of 12 13] h1 show ?thesis
    by (simp add: m)
qed

section \<open>Results: the daemon\<close>












section \<open>Results: the client\<close>

text \<open>
  C7. The client fails with the exception \<open>Model server not running. Start with:
  llmcommit-server\<close> before any socket operation exactly when the socket path does not
  exist. When the path exists, the connection is accepted and the response is a JSON
  object, an \<open>error\<close> field is raised as an exception, and otherwise the \<open>message\<close> field is
  returned.
\<close>

theorem client_outcomes:
  assumes "path_exists ep'" and "accepting ep'"
      and "recv_until has_newline (respond ep' (request_of diff')) [] = Some (Inr data)"
      and "loads (strip data) = Inr (JObj kvs)"
  shows "((client_generate ep diff = Some (Inl (Exception (JStr not_running_message)), []))
            = (\<not> path_exists ep))
       \<and> client_generate ep' diff' =
           Some (case map_of kvs ''error'' of
                   Some e \<Rightarrow> Inl (Exception e)
                 | None \<Rightarrow> (case map_of kvs ''message'' of
                              Some m \<Rightarrow> Inr m
                            | None \<Rightarrow> Inl (KeyError ''message'')),
                 [Connect, Send (request_of diff'), Close])"
proof -
  have a: "(client_generate ep diff = Some (Inl (Exception (JStr not_running_message)), []))
            = (\<not> path_exists ep)"
    by (auto simp: client_generate_def is_server_running_def Let_def
          split: sum.splits option.splits)
  have b: "client_generate ep' diff' =
           Some (case map_of kvs ''error'' of
                   Some e \<Rightarrow> Inl (Exception e)
                 | None \<Rightarrow> (case map_of kvs ''message'' of
                              Some m \<Rightarrow> Inr m
                            | None \<Rightarrow> Inl (KeyError ''message'')),
                 [Connect, Send (request_of diff'), Close])"
    using assms by (simp add: client_generate_def is_server_running_def Let_def)
  from a b show ?thesis by blast
qed

theorem client_outcomes_witness:
  "path_exists failing_endpoint \<and> accepting failing_endpoint
   \<and> recv_until has_newline (respond failing_endpoint (request_of ''X'')) []
       = Some (Inr [Doc (JObj [(''error'', JStr ''out of memory'')]), NL])
   \<and> loads (strip [Doc (JObj [(''error'', JStr ''out of memory'')]), NL])
       = Inr (JObj [(''error'', JStr ''out of memory'')])
   \<and> client_generate failing_endpoint ''X''
       = Some (Inl (Exception (JStr ''out of memory'')), [Connect, Send (request_of ''X''), Close])"
proof -
  have a: "path_exists failing_endpoint" and b: "accepting failing_endpoint"
    by (simp_all add: failing_endpoint_def)
  have c: "recv_until has_newline (respond failing_endpoint (request_of ''X'')) []
       = Some (Inr [Doc (JObj [(''error'', JStr ''out of memory'')]), NL])"
    by (simp add: failing_endpoint_def has_newline_def)
  have d: "loads (strip [Doc (JObj [(''error'', JStr ''out of memory'')]), NL])
       = Inr (JObj [(''error'', JStr ''out of memory'')])"
    by (simp add: strip_def)
  from client_outcomes [OF a b c d] a b c d show ?thesis by simp
qed

section \<open>Results: the supervisor\<close>

lemma start_leaves_live_pid:
  "\<exists>pid. pid_file (start_server_daemon sv child) = Some (PidText pid)
         \<and> pid \<in> set (procs (start_server_daemon sv child))"
proof (cases "pid_file sv")
  case None
  then show ?thesis by (simp add: start_server_daemon_def fork_daemon_def)
next
  case (Some f)
  show ?thesis
  proof (cases f)
    case (PidText n)
    with Some show ?thesis
      by (cases "n \<in> set (procs sv)") (simp_all add: start_server_daemon_def fork_daemon_def kill_def)
  next
    case NotAnInt
    with Some show ?thesis by (simp add: start_server_daemon_def fork_daemon_def)
  qed
qed

lemma start_when_running:
  "pid_file sv = Some (PidText pid) \<Longrightarrow> pid \<in> set (procs sv) \<Longrightarrow>
     start_server_daemon sv child = sv\<lparr>printed := printed sv @ [AlreadyRunning]\<rparr>"
  by (simp add: start_server_daemon_def kill_def)

text \<open>
  C9. When the PID file holds the id of a live process, \<open>start_server_daemon\<close> prints
  \<open>Server already running\<close> and changes nothing else. Started twice in a row from a
  state without PID file, it forks once: the second call prints \<open>Server already running\<close>
  and forks nothing. Without PID file \<open>stop_server_daemon\<close> prints \<open>Server not running\<close>
  and returns.
\<close>

theorem supervisor_idempotent:
  assumes "pid_file sv = Some (PidText pid)" and "pid \<in> set (procs sv)"
      and "pid_file sv0 = None"
  shows "start_server_daemon sv child = sv\<lparr>printed := printed sv @ [AlreadyRunning]\<rparr>
       \<and> start_server_daemon (start_server_daemon sv0 c1) c2
           = (start_server_daemon sv0 c1)
               \<lparr>printed := printed (start_server_daemon sv0 c1) @ [AlreadyRunning]\<rparr>
       \<and> spawned (start_server_daemon (start_server_daemon sv0 c1) c2) = spawned sv0 @ [c1]
       \<and> stop_server_daemon sv0 = sv0\<lparr>printed := printed sv0 @ [NotRunning]\<rparr>"
proof -
  have a: "start_server_daemon sv child = sv\<lparr>printed := printed sv @ [AlreadyRunning]\<rparr>"
    using assms(1,2) by (rule start_when_running)
  obtain p where p: "pid_file (start_server_daemon sv0 c1) = Some (PidText p)"
      "p \<in> set (procs (start_server_daemon sv0 c1))"
    using start_leaves_live_pid by blast
  have b: "start_server_daemon (start_server_daemon sv0 c1) c2
           = (start_server_daemon sv0 c1)
               \<lparr>printed := printed (start_server_daemon sv0 c1) @ [AlreadyRunning]\<rparr>"
    using p by (rule start_when_running)
  have c: "spawned (start_server_daemon (start_server_daemon sv0 c1) c2) = spawned sv0 @ [c1]"
    by (simp add: b) (simp add: start_server_daemon_def fork_daemon_def assms(3))
  have d: "stop_server_daemon sv0 = sv0\<lparr>printed := printed sv0 @ [NotRunning]\<rparr>"
    by (simp add: stop_server_daemon_def assms(3))
  from a b c d show ?thesis by blast
qed

theorem supervisor_idempotent_witness:
  "pid_file (start_server_daemon no_daemon 4242) = Some (PidText 4242)
   \<and> 4242 \<in> set (procs (start_server_daemon no_daemon 4242))
   \<and> pid_file no_daemon = None
   \<and> printed (start_server_daemon (start_server_daemon no_daemon 4242) 4243)
       = [Started 4242, AlreadyRunning]
   \<and> spawned (start_server_daemon (start_server_daemon no_daemon 4242) 4243) = [4242]
   \<and> printed (stop_server_daemon no_daemon) = [NotRunning]"
proof -
  have a: "pid_file (start_server_daemon no_daemon 4242) = Some (PidText 4242)"
    and b: "4242 \<in> set (procs (start_server_daemon no_daemon 4242))"
    and c: "pid_file no_daemon = None"
    by (simp_all add: start_server_daemon_def fork_daemon_def no_daemon_def)
  have e: "printed (start_server_daemon no_daemon 4242) = [Started 4242]" "spawned no_daemon = []"
     "printed no_daemon = []"
    by (simp_all add: start_server_daemon_def fork_daemon_def no_daemon_def)
  note t = supervisor_idempotent [OF a b c, of 4243 4242 4243]
  from t have "start_server_daemon (start_server_daemon no_daemon 4242) 4243
           = (start_server_daemon no_daemon 4242)
               \<lparr>printed := printed (start_server_daemon no_daemon 4242) @ [AlreadyRunning]\<rparr>"
    by blast
  then have p: "printed (start_server_daemon (start_server_daemon no_daemon 4242) 4243)
       = [Started 4242, AlreadyRunning]" by (simp add: e)
  from t have "spawned (start_server_daemon (start_server_daemon no_daemon 4242) 4243)
       = spawned no_daemon @ [4242]" by blast
  then have s: "spawned (start_server_daemon (start_server_daemon no_daemon 4242) 4243) = [4242]"
    by (simp add: e)
  from t have "stop_server_daemon no_daemon = no_daemon\<lparr>printed := printed no_daemon @ [NotRunning]\<rparr>"
    by blast
  then have n: "printed (stop_server_daemon no_daemon) = [NotRunning]" by (simp add: e)
  from a b c p s n show ?thesis by blast
qed

end
